theory Spec2Isabelle
  imports Complex_Main "HOL-Library.Char_ord" "HOL-Library.List_Lexorder"
begin

section \<open>Python values and exceptions\<close>

text \<open>
  The notebook \<^verbatim>\<open>301-tensorflow-training-openvino-pot.ipynb\<close> defines two classes,
  \<^verbatim>\<open>ClassificationDataLoader\<close> and \<^verbatim>\<open>Accuracy\<close>, and a driver cell that
  sequences calls into the compression toolkit. Every exception the Python code can raise
  is a value of \<open>error\<close>; a function that can raise returns \<open>error + 'a\<close> with
  \<open>Inl\<close> for the exception.
\<close>

datatype error =
    IndexError
  | ValueError
  | TypeError
  | ZeroDivisionError
  | FileNotFoundError
  | NotADirectoryError
  | KeyError
  | ExternalError string

text \<open>
  \<^verbatim>\<open>xs[i]\<close> on a Python list: a negative index counts from the end, anything outside
  \<open>[-n, n)\<close> raises \<^verbatim>\<open>IndexError\<close>.
\<close>

definition list_getitem :: "'a list \<Rightarrow> int \<Rightarrow> error + 'a" where
  "list_getitem xs i =
     (if 0 \<le> i \<and> i < int (length xs) then Inr (xs ! nat i)
      else if i < 0 \<and> - int (length xs) \<le> i then Inr (xs ! nat (int (length xs) + i))
      else Inl IndexError)"

text \<open>\<^verbatim>\<open>xs.index(x)\<close>: the first position of \<open>x\<close>, \<^verbatim>\<open>ValueError\<close> when absent.\<close>

fun list_index :: "'a list \<Rightarrow> 'a \<Rightarrow> error + nat" where
  "list_index [] x = Inl ValueError"
| "list_index (y # ys) x =
     (if y = x then Inr 0
      else (case list_index ys x of Inl e \<Rightarrow> Inl e | Inr i \<Rightarrow> Inr (Suc i)))"

section \<open>The numpy operations used by the metric\<close>

text \<open>
  \<^verbatim>\<open>np.argmax\<close> of a one-dimensional array: the first position of the largest
  element; an empty array raises \<^verbatim>\<open>ValueError\<close>. The scan keeps the best element
  seen so far and its position and replaces them only on a strictly larger element.
  The element type is any linear order (the model output holds numbers; not-a-number
  entries are outside the model).
\<close>

fun argmax_scan :: "'a::linorder list \<Rightarrow> nat \<Rightarrow> 'a \<Rightarrow> nat \<Rightarrow> nat" where
  "argmax_scan [] i best besti = besti"
| "argmax_scan (y # ys) i best besti =
     (if best < y then argmax_scan ys (Suc i) y i else argmax_scan ys (Suc i) best besti)"

fun argmax :: "'a::linorder list \<Rightarrow> error + nat" where
  "argmax [] = Inl ValueError"
| "argmax (x # xs) = Inr (argmax_scan xs 1 x 0)"

text \<open>\<^verbatim>\<open>np.argmax(a, axis=1)\<close> of a two-dimensional array, given as its list of rows.\<close>

fun argmax_axis1 :: "'a::linorder list list \<Rightarrow> error + nat list" where
  "argmax_axis1 [] = Inr []"
| "argmax_axis1 (row # rows) =
     (case argmax row of
        Inl e \<Rightarrow> Inl e
      | Inr a \<Rightarrow> (case argmax_axis1 rows of Inl e \<Rightarrow> Inl e | Inr as \<Rightarrow> Inr (a # as)))"

text \<open>
  \<^verbatim>\<open>predict == target\<close> for a one-dimensional integer array and a list of labels:
  elementwise when the lengths agree, broadcast when one side has length one, and a
  shape mismatch otherwise. On a mismatch numpy 1.25 and later raise \<^verbatim>\<open>ValueError\<close>,
  which is what the definition does; earlier releases warn and give the single value
  \<^verbatim>\<open>False\<close> instead. The properties below are about calls whose prediction and
  target lengths agree, where all releases compare elementwise.
\<close>

definition np_equal :: "nat list \<Rightarrow> int list \<Rightarrow> error + bool list" where
  "np_equal predict target =
     (if length predict = length target
        then Inr (map (\<lambda>(p, t). int p = t) (zip predict target))
      else if length target = 1 then Inr (map (\<lambda>p. int p = hd target) predict)
      else if length predict = 1 then Inr (map (\<lambda>t. int (hd predict) = t) target)
      else Inl ValueError)"

text \<open>
  \<^verbatim>\<open>np.count_nonzero\<close> of a list of boolean arrays: the list is converted to one
  array, which needs all entries to have the same length, and the number of
  \<^verbatim>\<open>True\<close> entries is returned as a Python \<^verbatim>\<open>int\<close>.
\<close>

definition rectangular :: "'a list list \<Rightarrow> bool" where
  "rectangular ms = (case ms of [] \<Rightarrow> True | m # rest \<Rightarrow> list_all (\<lambda>r. length r = length m) rest)"

definition count_nonzero :: "bool list list \<Rightarrow> error + nat" where
  "count_nonzero ms =
     (if rectangular ms then Inr (length (filter (\<lambda>b. b) (concat ms))) else Inl ValueError)"

text \<open>
  Python's true division of two integers: \<^verbatim>\<open>ZeroDivisionError\<close> on a zero divisor,
  and otherwise the double nearest to the exact quotient. The rounding to a double is the
  parameter \<open>rnd\<close>; the exact quotient is a rational number.
\<close>

definition true_div :: "(rat \<Rightarrow> rat) \<Rightarrow> int \<Rightarrow> int \<Rightarrow> error + rat" where
  "true_div rnd a b = (if b = 0 then Inl ZeroDivisionError else Inr (rnd (of_int a / of_int b)))"

section \<open>The metric accumulator: class Accuracy\<close>

text \<open>
  The object holds \<^verbatim>\<open>self._name\<close> and \<^verbatim>\<open>self._matches\<close>, the list of the
  boolean arrays appended by \<^verbatim>\<open>update\<close>, one per call.
\<close>

record Accuracy =
  metric_name :: string
  matches :: "bool list list"

definition Accuracy_init :: Accuracy where
  "Accuracy_init = \<lparr>metric_name = ''accuracy'', matches = []\<rparr>"

text \<open>\<^verbatim>\<open>value\<close>: the dictionary \<^verbatim>\<open>{self._name: self._matches[-1]}\<close>.\<close>

definition value_last :: "Accuracy \<Rightarrow> error + (string \<times> bool list) list" where
  "value_last m =
     (case list_getitem (matches m) (- 1) of
        Inl e \<Rightarrow> Inl e
      | Inr v \<Rightarrow> Inr [(metric_name m, v)])"

text \<open>
  \<^verbatim>\<open>avg_value\<close>: \<^verbatim>\<open>num_correct = np.count_nonzero(self._matches)\<close>, then
  \<^verbatim>\<open>{self._name: num_correct / len(self._matches)}\<close>.
\<close>

definition avg_value :: "(rat \<Rightarrow> rat) \<Rightarrow> Accuracy \<Rightarrow> error + (string \<times> rat) list" where
  "avg_value rnd m =
     (case count_nonzero (matches m) of
        Inl e \<Rightarrow> Inl e
      | Inr num_correct \<Rightarrow>
          (case true_div rnd (int num_correct) (int (length (matches m))) of
             Inl e \<Rightarrow> Inl e
           | Inr q \<Rightarrow> Inr [(metric_name m, q)]))"

text \<open>
  \<^verbatim>\<open>update(output, target)\<close>: \<^verbatim>\<open>predict = np.argmax(output[0], axis=1)\<close>,
  \<^verbatim>\<open>match = predict == target\<close>, \<^verbatim>\<open>self._matches.append(match)\<close>.
  \<open>output\<close> is the list of the model's output arrays, each two-dimensional
  (batch by classes); \<open>target\<close> is the list of the batch's labels.
\<close>

definition update :: "Accuracy \<Rightarrow> 'a::linorder list list list \<Rightarrow> int list \<Rightarrow> error + Accuracy" where
  "update m output target =
     (case list_getitem output 0 of
        Inl e \<Rightarrow> Inl e
      | Inr out0 \<Rightarrow>
          (case argmax_axis1 out0 of
             Inl e \<Rightarrow> Inl e
           | Inr predict \<Rightarrow>
               (case np_equal predict target of
                  Inl e \<Rightarrow> Inl e
                | Inr match \<Rightarrow> Inr (m\<lparr>matches := matches m @ [match]\<rparr>))))"

definition reset :: "Accuracy \<Rightarrow> Accuracy" where
  "reset m = m\<lparr>matches := []\<rparr>"

definition get_attributes :: "Accuracy \<Rightarrow> (string \<times> (string \<times> string) list) list" where
  "get_attributes m =
     [(metric_name m, [(''direction'', ''higher-better''), (''type'', ''accuracy'')])]"

text \<open>
  An evaluation pass calls \<^verbatim>\<open>update\<close> once per batch; the first exception ends it.
\<close>

fun update_all :: "Accuracy \<Rightarrow> ('a::linorder list list list \<times> int list) list \<Rightarrow> error + Accuracy" where
  "update_all m [] = Inr m"
| "update_all m (c # cs) =
     (case update m (fst c) (snd c) of Inl e \<Rightarrow> Inl e | Inr m' \<Rightarrow> update_all m' cs)"


section \<open>Paths and the directory tree\<close>

text \<open>
  A \<^verbatim>\<open>pathlib.Path\<close> on a POSIX system is its tuple of parts; an absolute path has
  the root \<^verbatim>\<open>'/'\<close> as its first part. \<^verbatim>\<open>name\<close>, \<^verbatim>\<open>parent\<close> and
  \<^verbatim>\<open>suffix\<close> follow pathlib: the name of a bare root or of the empty path is the empty
  string, the parent of a bare root is the root, and the suffix is the part of the name
  from its last dot when that dot is neither the first nor the last character.
\<close>

type_synonym path = "string list"

definition is_absolute :: "path \<Rightarrow> bool" where
  "is_absolute p = (case p of [] \<Rightarrow> False | c # _ \<Rightarrow> c = ''/'')"

definition name :: "path \<Rightarrow> string" where
  "name p = (if length p = (if is_absolute p then 1 else 0) then [] else last p)"

definition parent :: "path \<Rightarrow> path" where
  "parent p = (if length p = 1 \<and> is_absolute p then p else butlast p)"

text \<open>\<^verbatim>\<open>str.rfind\<close> of one character: its last position, or \<open>-1\<close>.\<close>

fun rfind :: "string \<Rightarrow> char \<Rightarrow> int" where
  "rfind [] c = - 1"
| "rfind (x # xs) c =
     (if 0 \<le> rfind xs c then rfind xs c + 1 else if x = c then 0 else - 1)"

definition suffix_of :: "string \<Rightarrow> string" where
  "suffix_of nm =
     (let i = rfind nm (CHR ''.'')
      in if 0 < i \<and> i < int (length nm) - 1 then drop (nat i) nm else [])"

definition suffix :: "path \<Rightarrow> string" where
  "suffix p = suffix_of (name p)"

text \<open>
  \<^verbatim>\<open>os.path.join(a, b)\<close> on two paths: \<open>b\<close> alone when it is absolute, else
  \<open>b\<close> under \<open>a\<close>.
\<close>

definition os_path_join :: "path \<Rightarrow> path \<Rightarrow> path" where
  "os_path_join a b = (if is_absolute b then b else a @ b)"

text \<open>
  \<^verbatim>\<open>Path(s)\<close> of a path string, given as its parts between the slashes: pathlib drops
  the parts that are a single dot and the empty ones.
\<close>

definition Path :: "path \<Rightarrow> path" where
  "Path parts = filter (\<lambda>c. c \<noteq> ''.'' \<and> c \<noteq> []) parts"

text \<open>
  What the file system holds at a path: a file, or a directory with its entries in the
  order in which the operating system lists them.
\<close>

datatype fs_node = File | Dir "(string \<times> fs_node) list"

definition is_dir :: "fs_node \<Rightarrow> bool" where
  "is_dir node = (case node of File \<Rightarrow> False | Dir _ \<Rightarrow> True)"

text \<open>
  \<^verbatim>\<open>Path.glob("**/*")\<close>: the recursive wildcard visits the starting directory and then
  every directory below it, each before its own subdirectories; for each visited directory
  the final \<^verbatim>\<open>*\<close> yields all its entries, files and directories alike. A start that
  is not a directory yields nothing.
\<close>

fun iterate_directories :: "path \<Rightarrow> fs_node \<Rightarrow> (path \<times> (string \<times> fs_node) list) list" where
  "iterate_directories p File = []"
| "iterate_directories p (Dir es) =
     (p, es) # concat (map (\<lambda>(n, c). iterate_directories (p @ [n]) c) es)"

definition select_wildcard :: "path \<times> (string \<times> fs_node) list \<Rightarrow> path list" where
  "select_wildcard d = map (\<lambda>(n, c). fst d @ [n]) (snd d)"

definition glob_all :: "path \<Rightarrow> fs_node option \<Rightarrow> path list" where
  "glob_all p tree =
     (case tree of
        None \<Rightarrow> []
      | Some node \<Rightarrow> concat (map select_wildcard (iterate_directories p node)))"

text \<open>
  \<^verbatim>\<open>Path.iterdir()\<close>: the entries of a directory; a missing path and a file raise.
\<close>

definition iterdir :: "path \<Rightarrow> fs_node option \<Rightarrow> error + (path \<times> fs_node) list" where
  "iterdir p tree =
     (case tree of
        None \<Rightarrow> Inl FileNotFoundError
      | Some File \<Rightarrow> Inl NotADirectoryError
      | Some (Dir es) \<Rightarrow> Inr (map (\<lambda>(n, c). (p @ [n], c)) es))"

section \<open>The sample indexer: class ClassificationDataLoader\<close>

text \<open>
  The constructor reads the module-level variable \<^verbatim>\<open>data_dir\<close> and the file
  system; both are the \<open>world\<close> the loader is built in. The file system gives what it
  holds at each path, nothing where the path does not exist.
\<close>

record world =
  data_dir :: path
  file_system :: "path \<Rightarrow> fs_node option"

text \<open>
  The image library: \<^verbatim>\<open>cv2.imread\<close> returns a three-channel image, or \<^verbatim>\<open>None\<close>
  when the file cannot be read or decoded; \<^verbatim>\<open>cv2.resize\<close> interpolates to a given
  size. An image is its rows of pixels, a pixel its three channel values.
\<close>

type_synonym 'a image = "('a \<times> 'a \<times> 'a) list list"

record cv2 =
  imread :: "path \<Rightarrow> nat image option"
  resize :: "nat image \<Rightarrow> nat \<times> nat \<Rightarrow> nat image"

record ClassificationDataLoader =
  data_source :: path
  dataset :: "path list"
  class_names :: "string list"

text \<open>
  \<^verbatim>\<open>__init__(self, data_source)\<close>, with the argument given as a path already:
  \<^verbatim>\<open>self.data_source = Path(data_source)\<close>,
  \<^verbatim>\<open>self.dataset = [p for p in data_dir.glob("**/*") if p.suffix in (".png", ".jpg")]\<close>,
  \<^verbatim>\<open>self.class_names = sorted([item.name for item in Path(data_dir).iterdir() if item.is_dir()])\<close>.
\<close>

definition ClassificationDataLoader_init :: "world \<Rightarrow> path \<Rightarrow> error + ClassificationDataLoader" where
  "ClassificationDataLoader_init W src =
     (let ds = filter (\<lambda>p. suffix p \<in> set [''.png'', ''.jpg''])
                 (glob_all (data_dir W) (file_system W (data_dir W)))
      in case iterdir (data_dir W) (file_system W (data_dir W)) of
           Inl e \<Rightarrow> Inl e
         | Inr items \<Rightarrow>
             Inr \<lparr>data_source = src, dataset = ds,
                  class_names = sort (map (\<lambda>item. name (fst item))
                                        (filter (\<lambda>item. is_dir (snd item)) items))\<rparr>)"

text \<open>\<^verbatim>\<open>__len__\<close>: \<^verbatim>\<open>len(self.dataset)\<close>.\<close>

definition len :: "ClassificationDataLoader \<Rightarrow> nat" where
  "len L = length (dataset L)"

text \<open>
  \<^verbatim>\<open>_read_image\<close>: \<^verbatim>\<open>cv2.imread(os.path.join(self.data_source, index))[:, :, (2, 1, 0)]\<close>,
  then \<^verbatim>\<open>cv2.resize(image, (180, 180)).astype(np.float32)\<close>. Subscripting the
  \<^verbatim>\<open>None\<close> of an unreadable file raises \<^verbatim>\<open>TypeError\<close>.
\<close>

definition reorder_channels :: "'a image \<Rightarrow> 'a image" where
  "reorder_channels img = map (map (\<lambda>(c0, c1, c2). (c2, c1, c0))) img"

definition astype_float32 :: "nat image \<Rightarrow> rat image" where
  "astype_float32 img = map (map (\<lambda>(c0, c1, c2). (of_nat c0, of_nat c1, of_nat c2))) img"

definition read_image :: "cv2 \<Rightarrow> ClassificationDataLoader \<Rightarrow> path \<Rightarrow> error + rat image" where
  "read_image cv L index =
     (case imread cv (os_path_join (data_source L) index) of
        None \<Rightarrow> Inl TypeError
      | Some img \<Rightarrow> Inr (astype_float32 (resize cv (reorder_channels img) (180, 180))))"

text \<open>
  \<^verbatim>\<open>__getitem__(self, index)\<close>: \<^verbatim>\<open>if index >= len(self): raise IndexError\<close>,
  \<^verbatim>\<open>filepath = self.dataset[index]\<close>,
  \<^verbatim>\<open>annotation = (index, self.class_names.index(filepath.parent.name))\<close>,
  \<^verbatim>\<open>image = self._read_image(filepath)\<close>, \<^verbatim>\<open>return annotation, image\<close>.
\<close>

definition getitem :: "cv2 \<Rightarrow> ClassificationDataLoader \<Rightarrow> int \<Rightarrow> error + ((int \<times> nat) \<times> rat image)" where
  "getitem cv L index =
     (if int (len L) \<le> index then Inl IndexError
      else (case list_getitem (dataset L) index of
              Inl e \<Rightarrow> Inl e
            | Inr filepath \<Rightarrow>
                (case list_index (class_names L) (name (parent filepath)) of
                   Inl e \<Rightarrow> Inl e
                 | Inr class_index \<Rightarrow>
                     (case read_image cv L filepath of
                        Inl e \<Rightarrow> Inl e
                      | Inr img \<Rightarrow> Inr ((index, class_index), img)))))"

section \<open>The quantization driver\<close>

text \<open>
  The driver cells call the compression toolkit, whose code is not part of the notebook.
  Model objects are mutable and are passed by reference, so they live in a heap: the list
  of the objects allocated so far, an object's address being its position. A toolkit
  function that receives a model gets its address and the heap and returns the heap it
  leaves behind.
\<close>

type_synonym addr = nat
type_synonym 'm heap = "'m list"
type_synonym metric_results = "(string \<times> rat) list option"

text \<open>
  The pipeline object made by \<^verbatim>\<open>create_pipeline\<close>, with its methods
  \<^verbatim>\<open>run(model=...)\<close>, which returns the compressed model, and \<^verbatim>\<open>evaluate(model)\<close>,
  which returns a dictionary of metric values or \<^verbatim>\<open>None\<close>.
\<close>

record 'm pipeline =
  run :: "addr \<Rightarrow> 'm heap \<Rightarrow> error + (addr \<times> 'm heap)"
  evaluate :: "addr \<Rightarrow> 'm heap \<Rightarrow> error + (metric_results \<times> 'm heap)"

text \<open>
  The toolkit functions the driver imports. \<open>load_model\<close> is the outcome of
  \<^verbatim>\<open>load_model(model_config=model_config)\<close>: the artifact read from the configured
  files, or an exception.
\<close>

record ('m, 'e) toolkit =
  load_model :: "error + 'm"
  IEEngine :: "ClassificationDataLoader \<Rightarrow> Accuracy \<Rightarrow> error + 'e"
  create_pipeline :: "'e \<Rightarrow> error + 'm pipeline"
  compress_model_weights :: "addr \<Rightarrow> 'm heap \<Rightarrow> error + 'm heap"
  save_model :: "addr \<Rightarrow> 'm heap \<Rightarrow> path \<Rightarrow> error + ((string \<times> path) list list \<times> 'm heap)"

text \<open>\<^verbatim>\<open>copy.deepcopy(x)\<close>: a new object with the contents of the one at \<open>a\<close>.\<close>

definition deepcopy :: "addr \<Rightarrow> 'm heap \<Rightarrow> addr \<times> 'm heap" where
  "deepcopy a h = (length h, h @ [h ! a])"

text \<open>\<^verbatim>\<open>d[k]\<close> on a dictionary, given as its list of items.\<close>

definition dict_getitem :: "('k \<times> 'v) list \<Rightarrow> 'k \<Rightarrow> error + 'v" where
  "dict_getitem d k = (case map_of d k of None \<Rightarrow> Inl KeyError | Some v \<Rightarrow> Inr v)"

text \<open>
  What the driver prints: each constructor is one of its three \<^verbatim>\<open>print\<close> statements
  with the value formatted into it. The toolkit calls made are recorded in order.
\<close>

datatype printed =
    Stored_in path
  | Accuracy_original rat
  | Accuracy_quantized rat

datatype call = Load_model | Deepcopy addr | Run addr | Compress addr | Save addr | Evaluate addr

record 'm driver =
  heap :: "'m heap"
  model :: addr
  original_model :: addr
  compressed_model :: addr
  data_loader :: ClassificationDataLoader
  metric :: Accuracy
  the_pipeline :: "'m pipeline"
  compressed_model_xml :: path
  stdout :: "printed list"
  call_log :: "call list"

text \<open>
  Steps 1 to 8 of the driver: load the model and deep-copy it, build the data loader over
  \<^verbatim>\<open>data_dir\<close> and a new metric, create the engine and the pipeline, run the pipeline
  on \<^verbatim>\<open>model\<close>, compress the weights of the result, save it and print where it is
  stored. The first exception ends the cell. \<^verbatim>\<open>load_model\<close> allocates the first
  object of the heap. The loader is built with \<^verbatim>\<open>data_source=data_dir\<close>. The save
  path is the string \<^verbatim>\<open>os.path.join(os.path.curdir, "model/optimized")\<close>, that is
  \<^verbatim>\<open>"./model/optimized"\<close>, and the stored path is
  \<^verbatim>\<open>Path(compressed_model_paths[0]["model"])\<close>.
\<close>

definition quantize :: "('m, 'e) toolkit \<Rightarrow> world \<Rightarrow> error + 'm driver" where
  "quantize tk W =
     (case load_model tk of Inl e \<Rightarrow> Inl e | Inr loaded \<Rightarrow>
      (case deepcopy 0 [loaded] of (original, heap2) \<Rightarrow>
      (case ClassificationDataLoader_init W (data_dir W) of Inl e \<Rightarrow> Inl e | Inr loader \<Rightarrow>
      (case IEEngine tk loader Accuracy_init of Inl e \<Rightarrow> Inl e | Inr engine \<Rightarrow>
      (case create_pipeline tk engine of Inl e \<Rightarrow> Inl e | Inr pl \<Rightarrow>
      (case run pl 0 heap2 of Inl e \<Rightarrow> Inl e | Inr (compressed, heap3) \<Rightarrow>
      (case compress_model_weights tk compressed heap3 of Inl e \<Rightarrow> Inl e | Inr heap4 \<Rightarrow>
      (case save_model tk compressed heap4 (os_path_join [''.''] [''model'', ''optimized'']) of
         Inl e \<Rightarrow> Inl e | Inr (compressed_model_paths, heap5) \<Rightarrow>
      (case list_getitem compressed_model_paths 0 of Inl e \<Rightarrow> Inl e | Inr paths0 \<Rightarrow>
      (case dict_getitem paths0 ''model'' of Inl e \<Rightarrow> Inl e | Inr xml \<Rightarrow>
         Inr \<lparr>heap = heap5, model = 0, original_model = original,
              compressed_model = compressed, data_loader = loader, metric = Accuracy_init,
              the_pipeline = pl, compressed_model_xml = Path xml,
              stdout = [Stored_in (Path xml)],
              call_log = [Load_model, Deepcopy 0, Run 0, Compress compressed,
                       Save compressed]\<rparr>))))))))))"

text \<open>
  Step 9: \<^verbatim>\<open>original_metric_results = pipeline.evaluate(original_model)\<close>,
  \<^verbatim>\<open>if original_metric_results: print(...)\<close> with the first value of the dictionary,
  then the same for \<^verbatim>\<open>compressed_model\<close>. \<^verbatim>\<open>None\<close> and the empty dictionary are
  false in the \<^verbatim>\<open>if\<close>.
\<close>

definition truthy :: "metric_results \<Rightarrow> bool" where
  "truthy r = (case r of None \<Rightarrow> False | Some d \<Rightarrow> d \<noteq> [])"

definition print_accuracy :: "(rat \<Rightarrow> printed) \<Rightarrow> metric_results \<Rightarrow> printed list" where
  "print_accuracy line r =
     (if truthy r then (case r of Some ((k, v) # _) \<Rightarrow> [line v] | _ \<Rightarrow> []) else [])"

definition evaluate_models :: "'m driver \<Rightarrow> error + 'm driver" where
  "evaluate_models s =
     (case evaluate (the_pipeline s) (original_model s) (heap s) of
        Inl e \<Rightarrow> Inl e
      | Inr (original_metric_results, heap1) \<Rightarrow>
          (case evaluate (the_pipeline s) (compressed_model s) heap1 of
             Inl e \<Rightarrow> Inl e
           | Inr (quantized_metric_results, heap2) \<Rightarrow>
               Inr (s\<lparr>heap := heap2,
                      stdout := stdout s
                        @ print_accuracy Accuracy_original original_metric_results
                        @ print_accuracy Accuracy_quantized quantized_metric_results,
                      call_log := call_log s @ [Evaluate (original_model s),
                                                Evaluate (compressed_model s)]\<rparr>)))"

section \<open>Directory-per-category data sources\<close>

text \<open>
  The layout the loader is written for: the data directory holds the category
  directories, each holding files only, and whatever else it holds directly is not named
  like an image. Entry names are file names: not empty and without a slash. An image file
  is a file whose name has one of the two suffixes the loader recognises.
\<close>

definition valid_name :: "string \<Rightarrow> bool" where
  "valid_name n = (n \<noteq> [] \<and> CHR ''/'' \<notin> set n)"

definition is_image_name :: "string \<Rightarrow> bool" where
  "is_image_name n = (suffix_of n \<in> set [''.png'', ''.jpg''])"

definition category_entry :: "string \<times> fs_node \<Rightarrow> bool" where
  "category_entry e =
     (valid_name (fst e) \<and> \<not> is_image_name (fst e) \<and>
      (case snd e of
         File \<Rightarrow> True
       | Dir fs \<Rightarrow> list_all (\<lambda>f. valid_name (fst f) \<and> snd f = File) fs))"

definition category_layout :: "fs_node \<Rightarrow> bool" where
  "category_layout node =
     (case node of
        File \<Rightarrow> False
      | Dir es \<Rightarrow> distinct (map fst es) \<and> list_all category_entry es)"

text \<open>The names of the category directories, and the image files below them.\<close>

definition category_names :: "fs_node \<Rightarrow> string list" where
  "category_names node =
     (case node of File \<Rightarrow> [] | Dir es \<Rightarrow> map fst (filter (\<lambda>e. is_dir (snd e)) es))"

definition category_samples :: "path \<Rightarrow> string \<times> fs_node \<Rightarrow> path list" where
  "category_samples d e =
     (case snd e of
        File \<Rightarrow> []
      | Dir fs \<Rightarrow> map (\<lambda>m. d @ [fst e, m]) (filter is_image_name (map fst fs)))"

definition image_files :: "path \<Rightarrow> fs_node \<Rightarrow> path list" where
  "image_files d node =
     (case node of File \<Rightarrow> [] | Dir es \<Rightarrow> concat (map (category_samples d) es))"

text \<open>The loader's test on a path: its suffix is one of the two recognised ones.\<close>

abbreviation (input) recognised :: "path \<Rightarrow> bool" where
  "recognised p \<equiv> suffix p \<in> set [''.png'', ''.jpg'']"

text \<open>
  A small world. \<^verbatim>\<open>data_dir\<close> is \<^verbatim>\<open>/data\<close>, a data source of two categories
  with three image files and a licence file beside them; \<^verbatim>\<open>/other\<close> is a second
  data source, of one category with one image file. \<open>cv_ok\<close> decodes every file to a
  one-pixel image and resizes by doing nothing; \<open>cv_corrupt\<close> cannot decode any file.
\<close>

definition flowers_tree :: fs_node where
  "flowers_tree =
     Dir [(''LICENSE.txt'', File),
          (''roses'', Dir [(''1.jpg'', File), (''2.png'', File)]),
          (''daisy'', Dir [(''a.jpg'', File)])]"

definition tulips_tree :: fs_node where
  "tulips_tree = Dir [(''tulips'', Dir [(''t.jpg'', File)])]"

definition flowers :: world where
  "flowers =
     \<lparr>data_dir = [''/'', ''data''],
      file_system = (\<lambda>p. if p = [''/'', ''data''] then Some flowers_tree
                else if p = [''/'', ''other''] then Some tulips_tree
                else None)\<rparr>"

definition cv_ok :: cv2 where
  "cv_ok = \<lparr>imread = (\<lambda>p. Some [[(1, 2, 3)]]), resize = (\<lambda>img sz. img)\<rparr>"

definition cv_corrupt :: cv2 where
  "cv_corrupt = \<lparr>imread = (\<lambda>p. None), resize = (\<lambda>img sz. img)\<rparr>"

definition flowers_loader :: "path \<Rightarrow> ClassificationDataLoader" where
  "flowers_loader src =
     \<lparr>data_source = src,
      dataset = [[''/'', ''data'', ''roses'', ''1.jpg''], [''/'', ''data'', ''roses'', ''2.png''],
                 [''/'', ''data'', ''daisy'', ''a.jpg'']],
      class_names = [''daisy'', ''roses'']\<rparr>"

section \<open>Toolkit functions that change only the model they are given\<close>

text \<open>
  \<open>modifies_only a h h'\<close>: from heap \<open>h\<close> to \<open>h'\<close> no object but the one at
  \<open>a\<close> has changed; new objects may have been allocated. A pipeline keeps to the frame
  when \<^verbatim>\<open>run\<close> changes only its argument and returns either its argument or a new
  object; a toolkit keeps to it when its pipelines do and weight compression and saving
  change only their argument.
\<close>

definition modifies_only :: "addr \<Rightarrow> 'm heap \<Rightarrow> 'm heap \<Rightarrow> bool" where
  "modifies_only a h h' =
     (length h \<le> length h' \<and> (\<forall>b < length h. b \<noteq> a \<longrightarrow> h' ! b = h ! b))"

definition run_frame :: "'m pipeline \<Rightarrow> bool" where
  "run_frame pl =
     (\<forall>a h c h'. run pl a h = Inr (c, h') \<longrightarrow> modifies_only a h h' \<and> (c = a \<or> length h \<le> c))"

definition toolkit_frame :: "('m, 'e) toolkit \<Rightarrow> bool" where
  "toolkit_frame tk =
     ((\<forall>engine pl. create_pipeline tk engine = Inr pl \<longrightarrow> run_frame pl) \<and>
      (\<forall>a h h'. compress_model_weights tk a h = Inr h' \<longrightarrow> modifies_only a h h') \<and>
      (\<forall>a h p r h'. save_model tk a h p = Inr (r, h') \<longrightarrow> modifies_only a h h'))"

text \<open>
  A toolkit to run the driver on: a model is its weight precision in bits, loaded as 32
  and set to 8 in place by the pipeline; evaluation gives a result for a 32-bit model and
  none for any other; saving reports the file \<^verbatim>\<open>flower_ir.xml\<close> under the save path.
\<close>

definition pipeline0 :: "nat pipeline" where
  "pipeline0 =
     \<lparr>run = (\<lambda>a h. Inr (a, h[a := 8])),
      evaluate = (\<lambda>a h. Inr (if h ! a = 32 then Some [(''accuracy'', 3 / 4)] else None, h))\<rparr>"

definition toolkit0 :: "(nat, unit) toolkit" where
  "toolkit0 =
     \<lparr>load_model = Inr 32,
      IEEngine = (\<lambda>loader m. Inr ()),
      create_pipeline = (\<lambda>engine. Inr pipeline0),
      compress_model_weights = (\<lambda>a h. Inr h),
      save_model = (\<lambda>a h p. Inr ([[(''model'', p @ [''flower_ir.xml''])]], h))\<rparr>"

section \<open>Single-sample batches\<close>

text \<open>
  A call of \<^verbatim>\<open>update\<close> records one prediction when the first output array has one
  non-empty row and the target holds one label. \<open>hit\<close> says that the prediction of such
  a call is correct: the arg-max of the row equals the label.
\<close>

definition single_sample :: "('a list list list \<times> int list) \<Rightarrow> bool" where
  "single_sample c =
     (case fst c of [] \<Rightarrow> False
      | out0 # _ \<Rightarrow> length out0 = 1 \<and> hd out0 \<noteq> [] \<and> length (snd c) = 1)"

definition hit :: "('a::linorder list list list \<times> int list) \<Rightarrow> bool" where
  "hit c = (case argmax (hd (hd (fst c))) of Inl _ \<Rightarrow> False | Inr a \<Rightarrow> int a = hd (snd c))"


section \<open>Properties of the metric accumulator\<close>

subsection \<open>The arg-max scan\<close>



lemma argmax_nonempty: "row \<noteq> [] \<Longrightarrow> \<exists>a. argmax row = Inr a"
  by (cases row) simp_all

subsection \<open>What update records\<close>

lemma update_success_appends:
  assumes "update m output target = Inr m'"
  shows "\<exists>match. matches m' = matches m @ [match] \<and> metric_name m' = metric_name m"
  using assms by (auto simp: update_def split: sum.splits)


lemma update_single_sample:
  assumes "single_sample c"
  shows "update m (fst c) (snd c) = Inr (m\<lparr>matches := matches m @ [[hit c]]\<rparr>)"
proof -
  from assms obtain row rest t where c: "c = ([row] # rest, [t])" and ne: "row \<noteq> []"
    by (cases c) (auto simp: single_sample_def length_Suc_conv split: list.splits)
  from ne obtain a where a: "argmax row = Inr a" using argmax_nonempty by blast
  show ?thesis
    by (simp add: c a update_def list_getitem_def np_equal_def hit_def)
qed

lemma update_all_single_sample:
  assumes "\<forall>c \<in> set calls. single_sample c"
  shows "update_all m calls = Inr (m\<lparr>matches := matches m @ map (\<lambda>c. [hit c]) calls\<rparr>)"
  using assms
proof (induction calls arbitrary: m)
  case Nil
  show ?case by simp
next
  case (Cons c cs)
  then show ?case by (simp add: update_single_sample)
qed

lemma rectangular_singletons: "rectangular (map (\<lambda>c. [f c]) cs)"
  by (cases cs) (simp_all add: rectangular_def list_all_iff)

lemma count_nonzero_singletons:
  "count_nonzero (map (\<lambda>c. [f c]) cs) = Inr (length (filter f cs))"
proof -
  have "concat (map (\<lambda>c. [f c]) cs) = map f cs" by (induction cs) simp_all
  moreover have "length (filter (\<lambda>b. b) (map f cs)) = length (filter f cs)"
    by (induction cs) simp_all
  ultimately show ?thesis by (simp add: count_nonzero_def rectangular_singletons)
qed

lemma avg_value_after_updates:
  assumes "matches m0 = []" "calls \<noteq> []" "\<forall>c \<in> set calls. single_sample c"
  shows "\<exists>m. update_all m0 calls = Inr m \<and>
          avg_value rnd m =
            Inr [(metric_name m0, rnd (of_nat (length (filter hit calls)) / of_nat (length calls)))]"
  using assms
  by (simp add: update_all_single_sample avg_value_def count_nonzero_singletons true_div_def)

text \<open>
  Calls that each hold one sample. Start from an accumulator with nothing recorded and
  make \<open>M \<ge> 1\<close> calls of \<^verbatim>\<open>update\<close>, each on one sample, \<open>C\<close> of them with the
  arg-max of the output equal to the target. Then every call succeeds and
  \<^verbatim>\<open>avg_value\<close> returns \<open>C / M\<close>: exactly that rational when the division is
  exact, and within \<open>10\<^sup>-\<^sup>9\<close> of it when the rounding of this quotient has a relative
  error of at most \<open>2\<^sup>-\<^sup>5\<^sup>3\<close>, as the rounding to the nearest double has.
\<close>

theorem avg_value_is_fraction:
  assumes rounding:
      "\<bar>rnd (of_nat (length (filter hit calls)) / of_nat (length calls))
          - of_nat (length (filter hit calls)) / of_nat (length calls)\<bar>
        \<le> \<bar>of_nat (length (filter hit calls)) / of_nat (length calls) :: rat\<bar> / 2 ^ 53"
    and fresh: "matches m0 = []"
    and nonempty: "calls \<noteq> []"
    and single: "\<forall>c \<in> set calls. single_sample c"
  shows "\<exists>m v. update_all m0 calls = Inr m \<and>
           avg_value rnd m = Inr [(metric_name m0, v)] \<and>
           \<bar>v - of_nat (length (filter hit calls)) / of_nat (length calls)\<bar> \<le> 1 / 10 ^ 9 \<and>
           avg_value (\<lambda>x. x) m =
             Inr [(metric_name m0, of_nat (length (filter hit calls)) / of_nat (length calls))]"
proof -
  let ?q = "(of_nat (length (filter hit calls)) / of_nat (length calls)) :: rat"
  from avg_value_after_updates [OF fresh nonempty single, of rnd]
  obtain m where m: "update_all m0 calls = Inr m"
    "avg_value rnd m = Inr [(metric_name m0, rnd ?q)]"
    by blast
  from avg_value_after_updates [OF fresh nonempty single, of "\<lambda>x. x"] m(1)
  have ex: "avg_value (\<lambda>x. x) m = Inr [(metric_name m0, ?q)]" by simp
  have "length (filter hit calls) \<le> length calls" by simp
  moreover have "0 < length calls" using nonempty by simp
  ultimately have q1: "?q \<le> 1" and q0: "0 \<le> ?q" by simp_all
  have "\<bar>rnd ?q - ?q\<bar> \<le> \<bar>?q\<bar> / 2 ^ 53" using rounding .
  also have "\<dots> \<le> 1 / 2 ^ 53" using q0 q1 by (simp add: divide_right_mono)
  also have "\<dots> \<le> (1 / 10 ^ 9 :: rat)" by simp
  finally have "\<bar>rnd ?q - ?q\<bar> \<le> 1 / 10 ^ 9" .
  with m ex show ?thesis by blast
qed

text \<open>Four single-sample calls, three of them correct: the average is \<open>3 / 4\<close>.\<close>

theorem avg_value_is_fraction_witness:
  "matches Accuracy_init = [] \<and>
   list_all single_sample
     [([[[1, 5, 2 :: int]]], [1]), ([[[7, 5, 2]]], [2]), ([[[0, 0, 3]]], [2]),
      ([[[4, 4, 1]]], [0])] \<and>
   (\<exists>m. update_all Accuracy_init
         [([[[1, 5, 2 :: int]]], [1]), ([[[7, 5, 2]]], [2]), ([[[0, 0, 3]]], [2]),
          ([[[4, 4, 1]]], [0])] = Inr m \<and>
       avg_value (\<lambda>x. x) m = Inr [(''accuracy'', 3 / 4)])"
  using avg_value_is_fraction [where rnd = "\<lambda>x. x" and ?m0.0 = Accuracy_init and calls =
      "[([[[1, 5, 2 :: int]]], [1]), ([[[7, 5, 2]]], [2]), ([[[0, 0, 3]]], [2]),
        ([[[4, 4, 1]]], [0])]"]
  by (auto simp: Accuracy_init_def single_sample_def hit_def)

text \<open>
  Claim C1 is about every sequence of \<^verbatim>\<open>update\<close> calls, and \<^verbatim>\<open>avg_value\<close>
  divides the number of \<^verbatim>\<open>True\<close> entries of all recorded arrays by the number of
  calls, \<^verbatim>\<open>len(self._matches)\<close>, not by the number of predictions. Two calls on
  batches of two samples, with three of the four predictions correct and a correct
  prediction in each call, record \<^verbatim>\<open>[True, True]\<close> and \<^verbatim>\<open>[True, False]\<close>, and
  \<^verbatim>\<open>avg_value\<close> returns the quotient \<open>3 / 2\<close>, under every rounding of it: neither
  \<open>2 / 2\<close>, the calls with a correct prediction over the calls, nor \<open>3 / 4\<close>, the
  correct predictions over all predictions.
\<close>

theorem avg_value_divides_by_calls:
  "\<exists>m. update_all Accuracy_init
          [([[[1, 5, 2 :: int], [7, 5, 2]]], [1, 0]), ([[[0, 0, 3], [4, 4, 1]]], [2, 1])]
        = Inr m \<and>
       matches m = [[True, True], [True, False]] \<and>
       length (matches m) = 2 \<and>
       (\<forall>rnd. avg_value rnd m = Inr [(''accuracy'', rnd (3 / 2))]) \<and>
       avg_value (\<lambda>x. x) m = Inr [(''accuracy'', 3 / 2)]"
  by (simp add: Accuracy_init_def update_def list_getitem_def np_equal_def avg_value_def
      count_nonzero_def rectangular_def true_div_def)

text \<open>
  Claim C3. After \<^verbatim>\<open>reset()\<close> nothing is recorded (the count is 0), and reading
  \<^verbatim>\<open>avg_value\<close> while nothing is recorded, after a reset or on a new object, does not
  return a number: the division \<^verbatim>\<open>0 / 0\<close> raises \<^verbatim>\<open>ZeroDivisionError\<close>.
\<close>

theorem reset_avg_value_fails:
  "matches (reset m) = [] \<and> length (matches (reset m)) = 0 \<and>
   avg_value rnd (reset m) = Inl ZeroDivisionError \<and>
   avg_value rnd Accuracy_init = Inl ZeroDivisionError"
  by (simp add: reset_def Accuracy_init_def avg_value_def count_nonzero_def rectangular_def
      true_div_def)



text \<open>
  Claim C9. Reading \<^verbatim>\<open>value\<close> while nothing is recorded, on a new object or after
  \<^verbatim>\<open>reset()\<close>, raises \<^verbatim>\<open>IndexError\<close>: \<^verbatim>\<open>self._matches[-1]\<close> indexes an
  empty list.
\<close>

theorem value_last_empty_fails:
  "value_last Accuracy_init = Inl IndexError \<and> value_last (reset m) = Inl IndexError"
  by (simp add: value_last_def list_getitem_def Accuracy_init_def reset_def)

section \<open>Properties of the sample indexer\<close>

subsection \<open>List lookups\<close>

lemma list_index_Inl: "list_index xs x = Inl e \<Longrightarrow> e = ValueError \<and> x \<notin> set xs"
  by (induction xs arbitrary: e) (auto split: if_splits sum.splits)

lemma list_index_Inr:
  "list_index xs x = Inr i \<Longrightarrow> i < length xs \<and> xs ! i = x \<and> (\<forall>j < i. xs ! j \<noteq> x)"
proof (induction xs arbitrary: i)
  case Nil
  then show ?case by simp
next
  case (Cons y ys)
  then show ?case
    by (auto split: if_splits sum.splits simp: nth_Cons less_Suc_eq_0_disj split: nat.splits)
qed

lemma list_index_Inr_mem: "list_index xs x = Inr i \<Longrightarrow> x \<in> set xs"
  using list_index_Inr [of xs x i] by (metis nth_mem)

lemma list_index_mem: "x \<in> set xs \<Longrightarrow> \<exists>i. list_index xs x = Inr i"
  by (induction xs) auto

subsection \<open>Indexing, in and out of range\<close>

lemma getitem_in_range:
  assumes "0 \<le> index" "index < int (len L)"
  shows "getitem cv L index =
     (case list_index (class_names L) (name (parent (dataset L ! nat index))) of
        Inl e \<Rightarrow> Inl e
      | Inr ci \<Rightarrow>
          (case read_image cv L (dataset L ! nat index) of
             Inl e \<Rightarrow> Inl e
           | Inr img \<Rightarrow> Inr ((index, ci), img)))"
  using assms by (simp add: getitem_def list_getitem_def len_def)

lemma getitem_negative:
  assumes "index < 0" "- int (len L) \<le> index"
  shows "getitem cv L index =
     (case list_index (class_names L) (name (parent (dataset L ! nat (int (len L) + index)))) of
        Inl e \<Rightarrow> Inl e
      | Inr ci \<Rightarrow>
          (case read_image cv L (dataset L ! nat (int (len L) + index)) of
             Inl e \<Rightarrow> Inl e
           | Inr img \<Rightarrow> Inr ((index, ci), img)))"
  using assms unfolding getitem_def list_getitem_def len_def by simp

lemma flowers_layout: "category_layout flowers_tree"
  by (simp add: flowers_tree_def category_layout_def category_entry_def valid_name_def
      is_image_name_def suffix_of_def)

lemma flowers_init: "ClassificationDataLoader_init flowers src = Inr (flowers_loader src)"
  by (simp add: ClassificationDataLoader_init_def flowers_def flowers_tree_def flowers_loader_def
      glob_all_def select_wildcard_def iterdir_def suffix_def suffix_of_def name_def
      is_absolute_def is_dir_def)

lemma flowers_len: "len (flowers_loader src) = 3"
  by (simp add: len_def flowers_loader_def)

text \<open>
  Claim C2, as the code has it. An index at or beyond the sample count always raises
  \<^verbatim>\<open>IndexError\<close>. An index in \<open>[0, N)\<close> never raises \<^verbatim>\<open>IndexError\<close>, and it
  returns a result exactly when the name of the file's parent directory is in the class
  catalog and the image library can read the file.
\<close>

theorem getitem_range:
  "(int (len L) \<le> index \<longrightarrow> getitem cv L index = Inl IndexError) \<and>
   (0 \<le> index \<and> index < int (len L) \<longrightarrow>
      getitem cv L index \<noteq> Inl IndexError \<and>
      ((\<exists>r. getitem cv L index = Inr r) \<longleftrightarrow>
         name (parent (dataset L ! nat index)) \<in> set (class_names L) \<and>
         imread cv (os_path_join (data_source L) (dataset L ! nat index)) \<noteq> None))"
proof (intro conjI impI)
  assume "int (len L) \<le> index"
  then show "getitem cv L index = Inl IndexError" by (simp add: getitem_def)
next
  assume r: "0 \<le> index \<and> index < int (len L)"
  then have g: "getitem cv L index =
     (case list_index (class_names L) (name (parent (dataset L ! nat index))) of
        Inl e \<Rightarrow> Inl e
      | Inr ci \<Rightarrow>
          (case read_image cv L (dataset L ! nat index) of
             Inl e \<Rightarrow> Inl e
           | Inr img \<Rightarrow> Inr ((index, ci), img)))"
    using getitem_in_range by blast
  show "getitem cv L index \<noteq> Inl IndexError"
    unfolding g
    by (auto simp: read_image_def split: sum.splits option.splits dest: list_index_Inl)
  show "(\<exists>r. getitem cv L index = Inr r) \<longleftrightarrow>
         name (parent (dataset L ! nat index)) \<in> set (class_names L) \<and>
         imread cv (os_path_join (data_source L) (dataset L ! nat index)) \<noteq> None"
    unfolding g
    by (auto simp: read_image_def split: sum.splits option.splits
        dest: list_index_Inl list_index_Inr_mem list_index_mem)
qed

text \<open>On the three-sample loader: index 3 is out of range, index 0 returns a result.\<close>

theorem getitem_range_witness:
  "int (len (flowers_loader [''/'', ''data''])) \<le> 3 \<and>
   getitem cv_ok (flowers_loader [''/'', ''data'']) 3 = Inl IndexError \<and>
   (0::int) \<le> 0 \<and> 0 < int (len (flowers_loader [''/'', ''data''])) \<and>
   getitem cv_ok (flowers_loader [''/'', ''data'']) 0 \<noteq> Inl IndexError \<and>
   (\<exists>r. getitem cv_ok (flowers_loader [''/'', ''data'']) 0 = Inr r)"
proof -
  have len3: "len (flowers_loader [''/'', ''data'']) = 3" by (rule flowers_len)
  have cat: "name (parent (dataset (flowers_loader [''/'', ''data'']) ! nat 0))
               \<in> set (class_names (flowers_loader [''/'', ''data'']))"
    by (simp add: flowers_loader_def name_def parent_def is_absolute_def)
  have rd: "imread cv_ok (os_path_join (data_source (flowers_loader [''/'', ''data'']))
               (dataset (flowers_loader [''/'', ''data'']) ! nat 0)) \<noteq> None"
    by (simp add: cv_ok_def)
  from getitem_range [of "flowers_loader [''/'', ''data'']" 3 cv_ok] len3
  have hi: "getitem cv_ok (flowers_loader [''/'', ''data'']) 3 = Inl IndexError" by simp
  from getitem_range [of "flowers_loader [''/'', ''data'']" 0 cv_ok] len3 cat rd
  have lo: "getitem cv_ok (flowers_loader [''/'', ''data'']) 0 \<noteq> Inl IndexError \<and>
            (\<exists>r. getitem cv_ok (flowers_loader [''/'', ''data'']) 0 = Inr r)" by simp
  from hi lo len3 show ?thesis by simp
qed

text \<open>
  Claim C2 as stated fails: the loader built over the three-sample data source has
  \<open>N = 3\<close>, and with a file the image library cannot decode, index 0 in
  \<open>[0, N)\<close> raises \<^verbatim>\<open>TypeError\<close>.
\<close>

theorem getitem_in_range_can_fail:
  "ClassificationDataLoader_init flowers [''/'', ''data''] = Inr (flowers_loader [''/'', ''data'']) \<and>
   len (flowers_loader [''/'', ''data'']) = 3 \<and>
   getitem cv_corrupt (flowers_loader [''/'', ''data'']) 0 = Inl TypeError"
  by (simp add: flowers_init flowers_len)
    (simp add: getitem_def list_getitem_def len_def flowers_loader_def read_image_def
      cv_corrupt_def name_def parent_def is_absolute_def)

text \<open>
  Claim C10, as the code has it. For a negative index in \<open>[-N, -1]\<close> the call does not
  raise \<^verbatim>\<open>IndexError\<close>. It ends as the call with index \<open>N + index\<close> ends: with the
  same exception, or with the same class label and the same image, while the first
  component of the annotation is the negative index as it was passed.
\<close>

theorem getitem_negative_index:
  assumes "index < 0" "- int (len L) \<le> index"
  shows "getitem cv L index \<noteq> Inl IndexError \<and>
         getitem cv L index =
           map_sum id (\<lambda>r. ((index, snd (fst r)), snd r)) (getitem cv L (int (len L) + index))"
proof -
  have r: "0 \<le> int (len L) + index" "int (len L) + index < int (len L)"
    using assms by simp_all
  show ?thesis
    unfolding getitem_negative [OF assms] getitem_in_range [OF r]
    by (auto simp: read_image_def split: sum.splits option.splits dest: list_index_Inl)
qed

theorem getitem_negative_index_witness:
  "(- 1 :: int) < 0 \<and> - int (len (flowers_loader [''/'', ''data''])) \<le> - 1 \<and>
   getitem cv_ok (flowers_loader [''/'', ''data'']) (- 1) \<noteq> Inl IndexError \<and>
   getitem cv_ok (flowers_loader [''/'', ''data'']) (- 1) = Inr ((- 1, 0), [[(3, 2, 1)]])"
proof -
  have two: "getitem cv_ok (flowers_loader [''/'', ''data'']) 2 = Inr ((2, 0), [[(3, 2, 1)]])"
    by (simp add: getitem_def list_getitem_def len_def flowers_loader_def read_image_def
        cv_ok_def name_def parent_def is_absolute_def reorder_channels_def astype_float32_def)
  from getitem_negative_index [of "- 1" "flowers_loader [''/'', ''data'']" cv_ok]
  show ?thesis by (simp add: flowers_len two)
qed

text \<open>
  Claim C10 as stated fails: on the three-sample loader, index \<open>-1\<close> returns the
  annotation \<open>(-1, 0)\<close>, while the sample at position \<open>3 + (-1) = 2\<close> has the
  annotation \<open>(2, 0)\<close>.
\<close>

theorem getitem_negative_annotation_differs:
  "getitem cv_ok (flowers_loader [''/'', ''data'']) (- 1) = Inr ((- 1, 0), [[(3, 2, 1)]]) \<and>
   getitem cv_ok (flowers_loader [''/'', ''data'']) (3 + (- 1)) = Inr ((2, 0), [[(3, 2, 1)]]) \<and>
   getitem cv_ok (flowers_loader [''/'', ''data'']) (- 1)
     \<noteq> getitem cv_ok (flowers_loader [''/'', ''data'']) (3 + (- 1))"
  by (simp add: getitem_def list_getitem_def len_def flowers_loader_def read_image_def
      cv_ok_def name_def parent_def is_absolute_def reorder_channels_def astype_float32_def)

subsection \<open>The constructor reads data_dir\<close>

lemma init_data_source:
  "ClassificationDataLoader_init W s2 =
     map_sum id (\<lambda>L. L\<lparr>data_source := s2\<rparr>) (ClassificationDataLoader_init W s1)"
  by (simp add: ClassificationDataLoader_init_def Let_def split: sum.splits)

text \<open>
  Claim C8. The dataset and the class catalog are built from the module-level
  \<^verbatim>\<open>data_dir\<close>: two loaders built with any two \<^verbatim>\<open>data_source\<close> arguments in the
  same world have the same sample count, the same sample paths and the same catalog, and
  differ in nothing but the stored \<^verbatim>\<open>data_source\<close>.
\<close>

theorem data_source_ignored:
  assumes "ClassificationDataLoader_init W s1 = Inr L1"
    and "ClassificationDataLoader_init W s2 = Inr L2"
  shows "len L1 = len L2 \<and> dataset L1 = dataset L2 \<and> class_names L1 = class_names L2 \<and>
         dataset L1 = filter (\<lambda>p. suffix p \<in> set [''.png'', ''.jpg''])
                        (glob_all (data_dir W) (file_system W (data_dir W))) \<and>
         L2 = L1\<lparr>data_source := s2\<rparr>"
  using assms init_data_source [of W s2 s1]
  by (auto simp: len_def ClassificationDataLoader_init_def Let_def split: sum.splits)

theorem data_source_ignored_witness:
  "ClassificationDataLoader_init flowers [''/'', ''data''] = Inr (flowers_loader [''/'', ''data'']) \<and>
   ClassificationDataLoader_init flowers [''elsewhere''] = Inr (flowers_loader [''elsewhere'']) \<and>
   len (flowers_loader [''/'', ''data'']) = len (flowers_loader [''elsewhere'']) \<and>
   dataset (flowers_loader [''/'', ''data'']) = dataset (flowers_loader [''elsewhere'']) \<and>
   class_names (flowers_loader [''/'', ''data'']) = class_names (flowers_loader [''elsewhere''])"
proof -
  have a: "ClassificationDataLoader_init flowers [''/'', ''data'']
             = Inr (flowers_loader [''/'', ''data''])"
    and b: "ClassificationDataLoader_init flowers [''elsewhere'']
             = Inr (flowers_loader [''elsewhere''])"
    by (rule flowers_init)+
  from data_source_ignored [OF a b]
  have "len (flowers_loader [''/'', ''data'']) = len (flowers_loader [''elsewhere'']) \<and>
        dataset (flowers_loader [''/'', ''data'']) = dataset (flowers_loader [''elsewhere'']) \<and>
        class_names (flowers_loader [''/'', ''data''])
          = class_names (flowers_loader [''elsewhere''])"
    by blast
  with a b show ?thesis by blast
qed

section \<open>The loader over a directory-per-category data source\<close>

lemma name_snoc: "valid_name n \<Longrightarrow> name (d @ [n]) = n"
  by (cases d) (auto simp: name_def is_absolute_def valid_name_def)

lemma name_snoc2: "name (d @ [n, m]) = m"
  by (simp add: name_def)

lemma parent_snoc2: "parent (d @ [n, m]) = d @ [n]"
  by (simp add: parent_def butlast_append)

lemma suffix_snoc: "valid_name n \<Longrightarrow> suffix (d @ [n]) = suffix_of n"
  by (simp add: suffix_def name_snoc)

lemma suffix_snoc2: "suffix (d @ [n, m]) = suffix_of m"
  by (simp add: suffix_def name_snoc2)

lemma iterate_files:
  "list_all (\<lambda>f. valid_name (fst f) \<and> snd f = File) fs \<Longrightarrow>
   concat (map (\<lambda>(n, c). iterate_directories (p @ [n]) c) fs) = []"
  by (induction fs) (auto)

lemma filter_wildcard_category:
  "filter recognised (select_wildcard (d @ [n], fs)) =
     map (\<lambda>m. d @ [n, m]) (filter is_image_name (map fst fs))"
  by (induction fs) (auto simp: select_wildcard_def suffix_snoc2 is_image_name_def)

lemma glob_category_entry:
  assumes "category_entry e"
  shows "filter recognised (concat (map select_wildcard (iterate_directories (d @ [fst e]) (snd e))))
           = category_samples d e"
proof (cases "snd e")
  case File
  then show ?thesis by (simp add: category_samples_def)
next
  case (Dir fs)
  with assms have "list_all (\<lambda>f. valid_name (fst f) \<and> snd f = File) fs"
    by (simp add: category_entry_def)
  then have "concat (map (\<lambda>(n, c). iterate_directories ((d @ [fst e]) @ [n]) c) fs) = []"
    by (rule iterate_files)
  then show ?thesis
    using Dir filter_wildcard_category [of d "fst e" fs] by (simp add: category_samples_def)
qed

lemma filter_wildcard_root:
  "list_all category_entry es \<Longrightarrow> filter recognised (select_wildcard (d, es)) = []"
  by (induction es) (auto simp: select_wildcard_def category_entry_def suffix_snoc is_image_name_def)

lemma glob_below_root:
  "list_all category_entry es \<Longrightarrow>
   filter recognised (concat (map select_wildcard
       (concat (map (\<lambda>(n, c). iterate_directories (d @ [n]) c) es))))
     = concat (map (category_samples d) es)"
proof (induction es)
  case Nil
  show ?case by simp
next
  case (Cons e es)
  then have e: "category_entry e" and es: "list_all category_entry es" by simp_all
  show ?case
    using glob_category_entry [OF e, of d] Cons.IH [OF es]
    by (simp add: case_prod_unfold)
qed

lemma dataset_of_layout:
  assumes "category_layout tree"
  shows "filter recognised (glob_all d (Some tree)) = image_files d tree"
proof (cases tree)
  case File
  with assms show ?thesis by (simp add: category_layout_def)
next
  case (Dir es)
  with assms have es: "list_all category_entry es" by (simp add: category_layout_def)
  show ?thesis
    using filter_wildcard_root [OF es, of d] glob_below_root [OF es, of d]
    by (simp add: Dir glob_all_def image_files_def)
qed

lemma class_names_of_layout:
  assumes "category_layout tree"
  shows "\<exists>items. iterdir d (Some tree) = Inr items \<and>
           map (\<lambda>item. name (fst item)) (filter (\<lambda>item. is_dir (snd item)) items)
             = category_names tree"
proof (cases tree)
  case File
  with assms show ?thesis by (simp add: category_layout_def)
next
  case (Dir es)
  with assms have es: "list_all category_entry es" by (simp add: category_layout_def)
  then have "map (\<lambda>item. name (fst item))
               (filter (\<lambda>item. is_dir (snd item)) (map (\<lambda>(n, c). (d @ [n], c)) es))
             = map fst (filter (\<lambda>e. is_dir (snd e)) es)"
    by (induction es) (auto simp: category_entry_def name_snoc)
  then show ?thesis by (simp add: Dir iterdir_def category_names_def)
qed

lemma init_of_layout:
  assumes "file_system W (data_dir W) = Some tree" "category_layout tree"
  shows "ClassificationDataLoader_init W src =
           Inr \<lparr>data_source = src, dataset = image_files (data_dir W) tree,
                class_names = sort (category_names tree)\<rparr>"
proof -
  from class_names_of_layout [OF assms(2), of "data_dir W"] obtain items where
    "iterdir (data_dir W) (Some tree) = Inr items"
    "map (\<lambda>item. name (fst item)) (filter (\<lambda>item. is_dir (snd item)) items) = category_names tree"
    by blast
  then show ?thesis
    using dataset_of_layout [OF assms(2), of "data_dir W"] assms(1)
    by (simp add: ClassificationDataLoader_init_def)
qed

lemma sample_parent_is_category:
  assumes "category_layout tree" "p \<in> set (image_files d tree)"
  shows "name (parent p) \<in> set (category_names tree)"
proof (cases tree)
  case File
  with assms show ?thesis by (simp add: category_layout_def)
next
  case (Dir es)
  with assms obtain e where e: "e \<in> set es" "p \<in> set (category_samples d e)"
    by (auto simp: image_files_def)
  then have "\<exists>fs m. snd e = Dir fs \<and> p = d @ [fst e, m]"
    by (cases "snd e") (auto simp: category_samples_def)
  then obtain fs m where fs: "snd e = Dir fs" and p: "p = d @ [fst e, m]"
    by blast
  from assms Dir e(1) have "valid_name (fst e)"
    by (auto simp: category_layout_def list_all_iff category_entry_def)
  then have "name (parent p) = fst e" by (simp add: p parent_snoc2 name_snoc)
  moreover have "fst e \<in> set (category_names tree)"
    using e(1) fs by (force simp: Dir category_names_def is_dir_def)
  ultimately show ?thesis by simp
qed

lemma distinct_category_names: "category_layout tree \<Longrightarrow> distinct (category_names tree)"
  by (cases tree) (auto simp: category_layout_def category_names_def distinct_map_filter)

text \<open>
  Where \<^verbatim>\<open>data_dir\<close> names a directory laid out as directory per category, with
  \<open>N\<close> image files under \<open>K\<close> category directories, the loader is built without
  an exception, whatever \<^verbatim>\<open>data_source\<close> it is given, and reports exactly \<open>N\<close>
  samples, those image files; its class catalog is the sequence of the category names
  sorted ascending, without duplicates and of length \<open>K\<close>; and for every sample the
  class label is the catalog position of the name of the file's parent directory, a value
  below \<open>K\<close>, which \<^verbatim>\<open>__getitem__\<close> returns in the annotation whenever the image
  library can read the file.
\<close>

theorem loader_counts_and_labels:
  assumes tree: "file_system W (data_dir W) = Some tree" and layout: "category_layout tree"
  shows "\<exists>L. ClassificationDataLoader_init W src = Inr L \<and>
           dataset L = image_files (data_dir W) tree \<and>
           len L = length (image_files (data_dir W) tree) \<and>
           class_names L = sort (category_names tree) \<and>
           sorted (class_names L) \<and> distinct (class_names L) \<and>
           set (class_names L) = set (category_names tree) \<and>
           length (class_names L) = length (category_names tree) \<and>
           (\<forall>i < len L. \<exists>ci < length (category_names tree).
              list_index (class_names L) (name (parent (dataset L ! i))) = Inr ci \<and>
              class_names L ! ci = name (parent (dataset L ! i)) \<and>
              (case imread cv (os_path_join src (dataset L ! i)) of
                 None \<Rightarrow> getitem cv L (int i) = Inl TypeError
               | Some raw \<Rightarrow> \<exists>img. getitem cv L (int i) = Inr ((int i, ci), img)))"
proof -
  define L where "L = \<lparr>data_source = src, dataset = image_files (data_dir W) tree,
                class_names = sort (category_names tree)\<rparr>"
  have init: "ClassificationDataLoader_init W src = Inr L"
    unfolding L_def by (rule init_of_layout [OF tree layout])
  have ds: "dataset L = image_files (data_dir W) tree"
    and cn: "class_names L = sort (category_names tree)"
    and so: "data_source L = src"
    by (simp_all add: L_def)
  have samples: "\<exists>ci < length (category_names tree).
              list_index (class_names L) (name (parent (dataset L ! i))) = Inr ci \<and>
              class_names L ! ci = name (parent (dataset L ! i)) \<and>
              (case imread cv (os_path_join src (dataset L ! i)) of
                 None \<Rightarrow> getitem cv L (int i) = Inl TypeError
               | Some raw \<Rightarrow> \<exists>img. getitem cv L (int i) = Inr ((int i, ci), img))"
    if i: "i < len L" for i
  proof -
    from i have "dataset L ! i \<in> set (image_files (data_dir W) tree)"
      by (simp add: len_def ds)
    then have "name (parent (dataset L ! i)) \<in> set (category_names tree)"
      by (rule sample_parent_is_category [OF layout])
    then have "name (parent (dataset L ! i)) \<in> set (class_names L)"
      by (simp add: cn)
    then have "\<exists>ci. list_index (class_names L) (name (parent (dataset L ! i))) = Inr ci"
      by (rule list_index_mem)
    then obtain ci where
      ci: "list_index (class_names L) (name (parent (dataset L ! i))) = Inr ci" ..
    from list_index_Inr [OF ci] have lt: "ci < length (category_names tree)"
      and nth: "class_names L ! ci = name (parent (dataset L ! i))" by (simp_all add: cn)
    have r: "0 \<le> int i" "int i < int (len L)" using i by simp_all
    have g: "getitem cv L (int i) =
        (case read_image cv L (dataset L ! i) of
           Inl e \<Rightarrow> Inl e | Inr img \<Rightarrow> Inr ((int i, ci), img))"
      unfolding getitem_in_range [OF r] by (simp add: ci)
    have "case imread cv (os_path_join src (dataset L ! i)) of
                 None \<Rightarrow> getitem cv L (int i) = Inl TypeError
               | Some raw \<Rightarrow> \<exists>img. getitem cv L (int i) = Inr ((int i, ci), img)"
      unfolding g by (simp add: read_image_def so split: option.splits)
    with ci lt nth show ?thesis by blast
  qed
  have cat: "sorted (class_names L) \<and> distinct (class_names L) \<and>
           set (class_names L) = set (category_names tree) \<and>
           length (class_names L) = length (category_names tree)"
    using distinct_category_names [OF layout] by (simp add: cn)
  have "len L = length (image_files (data_dir W) tree)"
    by (simp add: len_def ds)
  with init ds cn cat samples show ?thesis by blast
qed


theorem loader_counts_and_labels_witness:
  "file_system flowers (data_dir flowers) = Some flowers_tree \<and> category_layout flowers_tree \<and>
   length (image_files (data_dir flowers) flowers_tree) = 3 \<and>
   length (category_names flowers_tree) = 2 \<and>
   (\<exists>L. ClassificationDataLoader_init flowers [''/'', ''data''] = Inr L \<and> len L = 3 \<and>
      class_names L = [''daisy'', ''roses''] \<and>
      getitem cv_ok L 0 = Inr ((0, 1), [[(3, 2, 1)]]))"
proof -
  have tree: "file_system flowers (data_dir flowers) = Some flowers_tree" by (simp add: flowers_def)
  have n: "length (image_files (data_dir flowers) flowers_tree) = 3"
    by (simp add: image_files_def flowers_tree_def category_samples_def is_image_name_def
        suffix_of_def)
  have k: "category_names flowers_tree = [''roses'', ''daisy'']"
    by (simp add: category_names_def flowers_tree_def is_dir_def)
  from loader_counts_and_labels [OF tree flowers_layout, of "[''/'', ''data'']" cv_ok]
  obtain L where L: "ClassificationDataLoader_init flowers [''/'', ''data''] = Inr L"
    "len L = length (image_files (data_dir flowers) flowers_tree)"
    "class_names L = sort (category_names flowers_tree)"
    by blast
  have L_eq: "L = flowers_loader [''/'', ''data'']" using L(1) by (simp add: flowers_init)
  have g: "getitem cv_ok L 0 = Inr ((0, 1), [[(3, 2, 1)]])"
    unfolding L_eq
    by (simp add: getitem_def list_getitem_def len_def flowers_loader_def read_image_def
        cv_ok_def name_def parent_def is_absolute_def reorder_channels_def astype_float32_def)
  have c: "class_names L = [''daisy'', ''roses'']" using L(3) by (simp add: k)
  from tree flowers_layout n k L(1) L(2) c g show ?thesis by auto
qed

text \<open>
  Claim C4 is about every data source a loader is constructed with, and the constructor
  does not read its argument. In the world whose \<^verbatim>\<open>data_dir\<close> is \<^verbatim>\<open>/data\<close>, the
  loader constructed with \<^verbatim>\<open>data_source="/other"\<close>, a data source of one image file
  under one category directory, reports the three samples of \<^verbatim>\<open>/data\<close> and has the two
  category names of \<^verbatim>\<open>/data\<close> as its catalog; its first sample gets the label 1,
  which is not below the one category of \<^verbatim>\<open>/other\<close>.
\<close>

theorem loader_reads_data_dir_not_data_source:
  "file_system flowers [''/'', ''other''] = Some tulips_tree \<and> category_layout tulips_tree \<and>
   length (image_files [''/'', ''other''] tulips_tree) = 1 \<and>
   category_names tulips_tree = [''tulips''] \<and>
   ClassificationDataLoader_init flowers [''/'', ''other''] = Inr (flowers_loader [''/'', ''other'']) \<and>
   len (flowers_loader [''/'', ''other'']) = 3 \<and>
   class_names (flowers_loader [''/'', ''other'']) = [''daisy'', ''roses''] \<and>
   getitem cv_ok (flowers_loader [''/'', ''other'']) 0 = Inr ((0, 1), [[(3, 2, 1)]])"
proof -
  have "file_system flowers [''/'', ''other''] = Some tulips_tree"
    by (simp add: flowers_def)
  moreover have "category_layout tulips_tree"
    by (simp add: tulips_tree_def category_layout_def category_entry_def valid_name_def
        is_image_name_def suffix_of_def)
  moreover have "length (image_files [''/'', ''other''] tulips_tree) = 1"
    by (simp add: image_files_def tulips_tree_def category_samples_def is_image_name_def
        suffix_of_def)
  moreover have "category_names tulips_tree = [''tulips'']"
    by (simp add: category_names_def tulips_tree_def is_dir_def)
  moreover have "getitem cv_ok (flowers_loader [''/'', ''other'']) 0 = Inr ((0, 1), [[(3, 2, 1)]])"
    by (simp add: getitem_def list_getitem_def len_def flowers_loader_def read_image_def
        cv_ok_def name_def parent_def is_absolute_def reorder_channels_def astype_float32_def)
  moreover have "class_names (flowers_loader [''/'', ''other'']) = [''daisy'', ''roses'']"
    by (simp add: flowers_loader_def)
  ultimately show ?thesis by (simp add: flowers_init flowers_len)
qed

section \<open>Properties of the driver\<close>

lemma quantize_toolkit0:
  "quantize toolkit0 flowers =
     Inr \<lparr>heap = [8, 32], model = 0, original_model = 1, compressed_model = 0,
          data_loader = flowers_loader [''/'', ''data''], metric = Accuracy_init,
          the_pipeline = pipeline0,
          compressed_model_xml = [''model'', ''optimized'', ''flower_ir.xml''],
          stdout = [Stored_in [''model'', ''optimized'', ''flower_ir.xml'']],
          call_log = [Load_model, Deepcopy 0, Run 0, Compress 0, Save 0]\<rparr>"
proof -
  have "ClassificationDataLoader_init flowers (data_dir flowers)
          = Inr (flowers_loader [''/'', ''data''])"
    using flowers_init [of "[''/'', ''data'']"] by (simp add: flowers_def)
  then show ?thesis
    by (simp add: quantize_def toolkit0_def pipeline0_def deepcopy_def list_getitem_def
        dict_getitem_def os_path_join_def is_absolute_def Path_def)
qed

lemma toolkit0_frame: "toolkit_frame toolkit0"
  by (auto simp: toolkit_frame_def run_frame_def modifies_only_def toolkit0_def pipeline0_def)

lemma modifies_only_nth:
  "modifies_only a h h' \<Longrightarrow> b < length h \<Longrightarrow> b \<noteq> a \<Longrightarrow> h' ! b = h ! b \<and> b < length h'"
  by (simp add: modifies_only_def)

text \<open>
  Claim C5, as the code has it. The driver calls \<^verbatim>\<open>load_model\<close> once and keeps a deep
  copy of the loaded model as the baseline. The copy is an object of its own, neither the
  working model nor the compressed model; and when the pipeline run, the weight
  compression and the saving change only the model they are given, the copy still holds
  the artifact as it was loaded when the quantization steps are done.
\<close>

theorem baseline_copy_untouched:
  assumes frame: "toolkit_frame tk" and q: "quantize tk W = Inr s"
  shows "load_model tk = Inr (heap s ! original_model s) \<and>
         original_model s < length (heap s) \<and>
         original_model s \<noteq> model s \<and> original_model s \<noteq> compressed_model s \<and>
         call_log s = [Load_model, Deepcopy (model s), Run (model s),
                       Compress (compressed_model s), Save (compressed_model s)]"
proof -
  from q obtain loaded where ld: "load_model tk = Inr loaded"
    by (cases "load_model tk") (simp_all add: quantize_def)
  from q ld obtain loader where
    "ClassificationDataLoader_init W (data_dir W) = Inr loader"
    by (cases "ClassificationDataLoader_init W (data_dir W)")
      (simp_all add: quantize_def deepcopy_def)
  note st = ld this
  from q st obtain engine where "IEEngine tk loader Accuracy_init = Inr engine"
    by (cases "IEEngine tk loader Accuracy_init") (simp_all add: quantize_def deepcopy_def)
  note st = st this
  from q st obtain pl where pl: "create_pipeline tk engine = Inr pl"
    by (cases "create_pipeline tk engine") (simp_all add: quantize_def deepcopy_def)
  note st = st this
  from q st obtain compressed heap3 where rn: "run pl 0 [loaded, loaded] = Inr (compressed, heap3)"
    by (cases "run pl 0 [loaded, loaded]") (auto simp: quantize_def deepcopy_def)
  note st = st this
  from q st obtain heap4 where cm: "compress_model_weights tk compressed heap3 = Inr heap4"
    by (cases "compress_model_weights tk compressed heap3")
      (simp_all add: quantize_def deepcopy_def)
  note st = st this
  from q st obtain paths heap5 where
    sv: "save_model tk compressed heap4 (os_path_join [''.''] [''model'', ''optimized''])
           = Inr (paths, heap5)"
    by (cases "save_model tk compressed heap4 (os_path_join [''.''] [''model'', ''optimized''])")
      (auto simp: quantize_def deepcopy_def)
  note st = st this
  from q st have fields: "heap s = heap5" "model s = 0" "original_model s = 1"
    "compressed_model s = compressed"
    "call_log s = [Load_model, Deepcopy 0, Run 0, Compress compressed, Save compressed]"
    by (auto simp: quantize_def deepcopy_def split: sum.splits)
  from frame pl have "run_frame pl" by (auto simp: toolkit_frame_def)
  then have "modifies_only 0 [loaded, loaded] heap3 \<and>
             (compressed = 0 \<or> length [loaded, loaded] \<le> compressed)"
    unfolding run_frame_def using rn by blast
  then have f3: "modifies_only 0 [loaded, loaded] heap3"
    and fresh: "compressed = 0 \<or> 2 \<le> compressed"
    by (auto simp: numeral_2_eq_2)
  from frame cm have f4: "modifies_only compressed heap3 heap4"
    by (auto simp: toolkit_frame_def)
  from frame sv have f5: "modifies_only compressed heap4 heap5"
    by (auto simp: toolkit_frame_def)
  have ne: "(1::nat) \<noteq> compressed" using fresh by auto
  from modifies_only_nth [OF f3, of 1] have h3: "heap3 ! 1 = loaded" "1 < length heap3"
    by simp_all
  from modifies_only_nth [OF f4 h3(2) ne] h3(1) have h4: "heap4 ! 1 = loaded" "1 < length heap4"
    by simp_all
  from modifies_only_nth [OF f5 h4(2) ne] h4(1) have h5: "heap5 ! 1 = loaded" "1 < length heap5"
    by simp_all
  from ld h5 ne show ?thesis by (simp add: fields)
qed

theorem baseline_copy_untouched_witness:
  "toolkit_frame toolkit0 \<and>
   (\<exists>s. quantize toolkit0 flowers = Inr s \<and> load_model toolkit0 = Inr (heap s ! original_model s) \<and>
      heap s ! original_model s = 32 \<and> heap s ! model s = 8 \<and> original_model s \<noteq> model s)"
proof -
  obtain s where s: "quantize toolkit0 flowers = Inr s" "heap s = [8, 32]" "model s = 0"
    using quantize_toolkit0 by simp
  from baseline_copy_untouched [OF toolkit0_frame s(1)]
  have "load_model toolkit0 = Inr (heap s ! original_model s)"
    and "original_model s \<noteq> model s" by simp_all
  moreover from this(1) have "heap s ! original_model s = 32" by (simp add: toolkit0_def)
  moreover have "heap s ! model s = 8" by (simp add: s)
  ultimately show ?thesis using toolkit0_frame s(1) by blast
qed

text \<open>
  Claim C5 as stated fails: in a run of the driver the toolkit calls are one
  \<^verbatim>\<open>load_model\<close>, then the deep copy, the pipeline run, the weight compression and the
  saving. The model artifact is loaded once, not twice.
\<close>

theorem model_is_loaded_once:
  "\<exists>s. quantize toolkit0 flowers = Inr s \<and>
     call_log s = [Load_model, Deepcopy 0, Run 0, Compress 0, Save 0] \<and>
     length (filter (\<lambda>c. c = Load_model) (call_log s)) = 1"
  by (simp add: quantize_toolkit0)

text \<open>
  Claim C7. In step 9, when the two \<^verbatim>\<open>evaluate\<close> calls return, the cell ends without
  an exception and prints one accuracy line for each result set that is present; a result
  set that is \<^verbatim>\<open>None\<close> or an empty dictionary prints nothing.
\<close>

theorem missing_results_skip_print:
  assumes "evaluate (the_pipeline s) (original_model s) (heap s) = Inr (r1, h1)"
    and "evaluate (the_pipeline s) (compressed_model s) h1 = Inr (r2, h2)"
  shows "(\<exists>s'. evaluate_models s = Inr s' \<and>
            stdout s' = stdout s @ print_accuracy Accuracy_original r1
                                 @ print_accuracy Accuracy_quantized r2) \<and>
         (\<forall>line. print_accuracy line None = [] \<and> print_accuracy line (Some []) = []) \<and>
         (\<forall>line k v d. print_accuracy line (Some ((k, v) # d)) = [line v])"
  using assms by (simp add: evaluate_models_def print_accuracy_def truthy_def)

theorem missing_results_skip_print_witness:
  "\<exists>s s'. quantize toolkit0 flowers = Inr s \<and>
     evaluate (the_pipeline s) (original_model s) (heap s)
       = Inr (Some [(''accuracy'', 3 / 4)], heap s) \<and>
     evaluate (the_pipeline s) (compressed_model s) (heap s) = Inr (None, heap s) \<and>
     evaluate_models s = Inr s' \<and>
     stdout s' = [Stored_in [''model'', ''optimized'', ''flower_ir.xml''],
                  Accuracy_original (3 / 4)]"
proof -
  obtain s where s: "quantize toolkit0 flowers = Inr s" "heap s = [8, 32]"
    "original_model s = 1" "compressed_model s = 0" "the_pipeline s = pipeline0"
    "stdout s = [Stored_in [''model'', ''optimized'', ''flower_ir.xml'']]"
    using quantize_toolkit0 by simp
  have e1: "evaluate (the_pipeline s) (original_model s) (heap s)
              = Inr (Some [(''accuracy'', 3 / 4)], heap s)"
    by (simp add: s pipeline0_def)
  have e2: "evaluate (the_pipeline s) (compressed_model s) (heap s) = Inr (None, heap s)"
    by (simp add: s pipeline0_def)
  from missing_results_skip_print [OF e1 e2]
  obtain s' where "evaluate_models s = Inr s'"
    "stdout s' = stdout s @ print_accuracy Accuracy_original (Some [(''accuracy'', 3 / 4)])
                          @ print_accuracy Accuracy_quantized None"
    by blast
  moreover from this(2) missing_results_skip_print [OF e1 e2]
  have "stdout s' = [Stored_in [''model'', ''optimized'', ''flower_ir.xml''],
                     Accuracy_original (3 / 4)]"
    by (simp add: s)
  ultimately show ?thesis using s(1) e1 e2 by blast
qed


end
